theory Spec2Isabelle
  imports Complex_Main "HOL-Library.Log_Nat" "HOL-Library.Char_ord" "HOL-Library.List_Lexorder"
begin

section \<open>Python floats\<close>

text \<open>
  Confidences, quality scores and parsed amounts are Python floats (IEEE binary64). A finite
  float is represented by the rational number it denotes. Every float operation of the
  source is the exact operation followed by rounding to the nearest float, ties to even
  (\<open>fl\<close>); a float literal such as \<open>0.7\<close> is \<open>fl (7 / 10)\<close>. \<open>fl\<close> rounds to 53
  significant bits with an unbounded exponent, which is the float arithmetic of the
  confidences and scores, whose magnitudes stay in the normal range. The conversion of a
  decimal text by \<open>float(s)\<close> can leave that range; \<open>nearest_float\<close> adds the overflow
  to infinity and the rounding of subnormal numbers.
\<close>

definition round_half_even :: "rat \<Rightarrow> int" where
  "round_half_even x =
     (let f = \<lfloor>x\<rfloor>; r = x - of_int f
      in if r < 1 / 2 then f
         else if 1 / 2 < r then f + 1
         else if even f then f else f + 1)"

text \<open>\<open>ilog2 x\<close> is the binary exponent of a positive rational: \<open>2^k \<le> x < 2^(k+1)\<close>.\<close>

definition ilog2 :: "rat \<Rightarrow> int" where
  "ilog2 x =
     (let (a, b) = quotient_of x; k = bitlen a - bitlen b
      in if 2 powi k \<le> x then k else k - 1)"

definition fl :: "rat \<Rightarrow> rat" where
  "fl x =
     (if x = 0 then 0
      else let e = ilog2 \<bar>x\<bar> - 52;
               m = round_half_even (\<bar>x\<bar> / 2 powi e)
           in sgn x * of_int m * 2 powi e)"

datatype pyfloat = Finite rat | PosInf | NegInf | NaN

definition nearest_float :: "rat \<Rightarrow> pyfloat" where
  "nearest_float x =
     (if x = 0 then Finite 0
      else if \<bar>x\<bar> < 2 powi (- 1022)
      then Finite (sgn x * of_int (round_half_even (\<bar>x\<bar> / 2 powi (- 1074))) * 2 powi (- 1074))
      else if 2 ^ 1024 \<le> \<bar>fl x\<bar> then (if 0 < x then PosInf else NegInf)
      else Finite (fl x))"

definition fmul :: "rat \<Rightarrow> rat \<Rightarrow> rat" where
  "fmul a b = fl (a * b)"

definition fdiv :: "rat \<Rightarrow> rat \<Rightarrow> rat" where
  "fdiv a b = fl (a / b)"

text \<open>\<open>int(x)\<close> on a float truncates towards zero.\<close>

definition py_int_of_float :: "rat \<Rightarrow> int" where
  "py_int_of_float x = (if 0 \<le> x then \<lfloor>x\<rfloor> else \<lceil>x\<rceil>)"

section \<open>Python values\<close>

text \<open>
  A field of a candidate result holds \<open>None\<close>, a bool, an int, a float, a string, or an
  object of some other class (a datetime, a database id), which is kept only by its
  \<open>str()\<close>. A string is a list of code points below 256. A result dict is an association
  list in insertion order; lookups read the first entry of a key.
\<close>

datatype pyval = PNone | PBool bool | PInt int | PFloat rat | PStr string | PObj string

type_synonym pydict = "(string \<times> pyval) list"

datatype exn = TypeError | AttributeError | ValueError | OverflowError

definition has_key :: "pydict \<Rightarrow> string \<Rightarrow> bool" where
  "has_key d k = (map_of d k \<noteq> None)"

definition dict_get :: "pydict \<Rightarrow> string \<Rightarrow> pyval \<Rightarrow> pyval" where
  "dict_get d k dflt = (case map_of d k of None \<Rightarrow> dflt | Some v \<Rightarrow> v)"

text \<open>The numeric value of an int, float or bool; other values raise on a comparison with a number.\<close>

fun num_of :: "pyval \<Rightarrow> rat option" where
  "num_of (PBool b) = Some (if b then 1 else 0)"
| "num_of (PInt i) = Some (of_int i)"
| "num_of (PFloat q) = Some q"
| "num_of _ = None"

definition py_gt :: "pyval \<Rightarrow> rat \<Rightarrow> exn + bool" where
  "py_gt v c = (case num_of v of None \<Rightarrow> Inl TypeError | Some q \<Rightarrow> Inr (c < q))"

definition py_lt :: "pyval \<Rightarrow> rat \<Rightarrow> exn + bool" where
  "py_lt v c = (case num_of v of None \<Rightarrow> Inl TypeError | Some q \<Rightarrow> Inr (q < c))"

fun truthy :: "pyval \<Rightarrow> bool" where
  "truthy PNone = False"
| "truthy (PBool b) = b"
| "truthy (PInt i) = (i \<noteq> 0)"
| "truthy (PFloat q) = (q \<noteq> 0)"
| "truthy (PStr s) = (s \<noteq> [])"
| "truthy (PObj s) = True"

subsection \<open>Strings\<close>

definition lower_char :: "char \<Rightarrow> char" where
  "lower_char c =
     (let n = of_char c :: nat
      in if (65 \<le> n \<and> n \<le> 90) \<or> (192 \<le> n \<and> n \<le> 222 \<and> n \<noteq> 215)
         then char_of (n + 32) else c)"

definition lower :: "string \<Rightarrow> string" where
  "lower s = map lower_char s"

definition startswith :: "string \<Rightarrow> string \<Rightarrow> bool" where
  "startswith s p = (take (length p) s = p)"

definition endswith :: "string \<Rightarrow> string \<Rightarrow> bool" where
  "endswith s p = (length p \<le> length s \<and> drop (length s - length p) s = p)"

text \<open>\<open>contains s p\<close> is Python's \<open>p in s\<close> on strings.\<close>

fun contains :: "string \<Rightarrow> string \<Rightarrow> bool" where
  "contains [] p = (p = [])"
| "contains (c # cs) p = (startswith (c # cs) p \<or> contains cs p)"

fun digits_of :: "nat \<Rightarrow> string" where
  "digits_of n =
     (if n < 10 then [char_of (48 + n)]
      else digits_of (n div 10) @ [char_of (48 + n mod 10)])"

definition str_of_int :: "int \<Rightarrow> string" where
  "str_of_int i = (if i < 0 then CHR ''-'' # digits_of (nat (- i)) else digits_of (nat i))"

text \<open>
  What the Python runtime and its libraries supply: the clock, \<open>repr\<close> of a float, the MD5
  digest, the date parsers, \<open>float(s)\<close> for a string that is not a plain decimal literal
  (\<open>None\<close> stands for \<open>ValueError\<close>), the limit \<open>sys.get_int_max_str_digits()\<close> on the
  digits that \<open>int(s)\<close> converts (0 when there is no limit, 4300 by default from Python
  3.11 on) and \<open>sys.maxsize\<close>. They are parameters of the model.
\<close>

datatype date_status = NoFormat | OutOfRange | InRange

record runtime =
  now_year :: int
  float_repr :: "rat \<Rightarrow> string"
  md5_hexdigest :: "string \<Rightarrow> string"
  fromisoformat_year :: "string \<Rightarrow> int option"
  strptime_check :: "string \<Rightarrow> date_status"
  float_of_other :: "string \<Rightarrow> pyfloat option"
  int_max_str_digits :: nat
  sys_maxsize :: int

fun py_str :: "runtime \<Rightarrow> pyval \<Rightarrow> string" where
  "py_str rt PNone = ''None''"
| "py_str rt (PBool b) = (if b then ''True'' else ''False'')"
| "py_str rt (PInt i) = str_of_int i"
| "py_str rt (PFloat q) = float_repr rt q"
| "py_str rt (PStr s) = s"
| "py_str rt (PObj s) = s"

text \<open>\<open>v.lower()\<close> exists on strings only.\<close>

fun str_lower :: "pyval \<Rightarrow> exn + string" where
  "str_lower (PStr s) = Inr (lower s)"
| "str_lower _ = Inl AttributeError"

section \<open>The quality report: \<open>src/ai/fact_checker.py\<close>\<close>

text \<open>
  Each warning and error string is represented by a constructor that carries the values
  interpolated into the message.
\<close>

datatype msg =
    AmountTooHigh pyval
  | NegativeAmount
  | UnknownCategory string
  | YearOutOfRange pyval
  | UnknownDateFormat string
  | DateOutOfRange string
  | UnusualExtension string
  | FileTooLarge pyval
  | UnknownDocType string
  | YearDateMismatch pyval string
  | HighAmountNoProject pyval

record validation =
  is_valid :: bool
  errors :: "msg list"
  warnings :: "msg list"

definition max_single_expense :: rat where
  "max_single_expense = 10000000"

definition valid_categories :: "string list" where
  "valid_categories =
     [''infrastruktur'', ''personal'', ''verwaltung'', ''kultur'', ''soziales'', ''umwelt'',
      ''bildung'']"

definition validate_financial_data :: "pydict \<Rightarrow> exn + validation" where
  "validate_financial_data result =
     (let betrag = dict_get result ''betrag'' (PInt 0)
      in case py_gt betrag max_single_expense of
           Inl e \<Rightarrow> Inl e
         | Inr high \<Rightarrow>
             (case py_lt betrag 0 of
                Inl e \<Rightarrow> Inl e
              | Inr neg \<Rightarrow>
                  (case str_lower (dict_get result ''kategorie'' (PStr [])) of
                     Inl e \<Rightarrow> Inl e
                   | Inr kategorie \<Rightarrow>
                       Inr \<lparr>is_valid = \<not> high,
                            errors = (if high then [AmountTooHigh betrag] else []),
                            warnings = (if neg then [NegativeAmount] else []) @
                              (if kategorie \<noteq> [] \<and> kategorie \<notin> set valid_categories
                               then [UnknownCategory kategorie] else [])\<rparr>)))"

definition validate_temporal_data :: "runtime \<Rightarrow> pydict \<Rightarrow> exn + validation" where
  "validate_temporal_data rt result =
     (case (case map_of result ''jahr'' of
              None \<Rightarrow> Inr []
            | Some jahr \<Rightarrow>
                (case py_lt jahr 1990 of Inl e \<Rightarrow> Inl e
                 | Inr True \<Rightarrow> Inr [YearOutOfRange jahr]
                 | Inr False \<Rightarrow>
                     (case py_gt jahr (of_int (now_year rt + 1)) of Inl e \<Rightarrow> Inl e
                      | Inr late \<Rightarrow> Inr (if late then [YearOutOfRange jahr] else []))))
      of Inl e \<Rightarrow> Inl e
       | Inr ws \<Rightarrow>
           Inr \<lparr>is_valid = True, errors = [],
                warnings = ws @
                  (case map_of result ''datum'' of
                     Some (PStr s) \<Rightarrow>
                       (case strptime_check rt s of
                          NoFormat \<Rightarrow> [UnknownDateFormat s]
                        | OutOfRange \<Rightarrow> [DateOutOfRange s]
                        | InRange \<Rightarrow> [])
                   | _ \<Rightarrow> [])\<rparr>)"

definition valid_extensions :: "string list" where
  "valid_extensions = [''.pdf'', ''.docx'', ''.txt'', ''.xlsx'']"

definition valid_types :: "string list" where
  "valid_types = [''protokoll'', ''bericht'', ''beschluss'', ''vertrag'', ''rechnung'']"

definition max_file_size :: rat where
  "max_file_size = 100 * 1024 * 1024"

definition validate_document_data :: "pydict \<Rightarrow> exn + validation" where
  "validate_document_data result =
     (case (case map_of result ''filename'' of
              None \<Rightarrow> Inr []
            | Some (PStr filename) \<Rightarrow>
                Inr (if list_ex (endswith (lower filename)) valid_extensions then []
                     else [UnusualExtension filename])
            | Some _ \<Rightarrow> Inl AttributeError)
      of Inl e \<Rightarrow> Inl e
       | Inr w1 \<Rightarrow>
      (case (case map_of result ''filesize'' of
               None \<Rightarrow> Inr []
             | Some filesize \<Rightarrow>
                 (case py_gt filesize max_file_size of Inl e \<Rightarrow> Inl e
                  | Inr big \<Rightarrow> Inr (if big then [FileTooLarge filesize] else [])))
       of Inl e \<Rightarrow> Inl e
        | Inr w2 \<Rightarrow>
      (case (case map_of result ''typ'' of
               None \<Rightarrow> Inr []
             | Some typ \<Rightarrow>
                 (case str_lower typ of Inl e \<Rightarrow> Inl e
                  | Inr t \<Rightarrow> Inr (if t \<in> set valid_types then [] else [UnknownDocType t])))
       of Inl e \<Rightarrow> Inl e
        | Inr w3 \<Rightarrow> Inr \<lparr>is_valid = True, errors = [], warnings = w1 @ w2 @ w3\<rparr>)))"


definition project_words :: "string list" where
  "project_words = [''projekt'', ''bau'', ''investition'', ''sanierung'']"

definition validate_consistency :: "runtime \<Rightarrow> pydict \<Rightarrow> exn + validation" where
  "validate_consistency rt result =
     (let w1 = (case (map_of result ''jahr'', map_of result ''datum'') of
                  (Some jahr, Some datum) \<Rightarrow>
                    (if contains (py_str rt datum) (py_str rt jahr) then []
                     else [YearDateMismatch jahr (py_str rt datum)])
                | _ \<Rightarrow> [])
      in case (map_of result ''betrag'', map_of result ''beschreibung'') of
           (Some betrag, Some b) \<Rightarrow>
             (case str_lower b of Inl e \<Rightarrow> Inl e
              | Inr beschreibung \<Rightarrow>
                  (case py_gt betrag 100000 of Inl e \<Rightarrow> Inl e
                   | Inr high \<Rightarrow>
                       Inr \<lparr>is_valid = True, errors = [],
                            warnings = w1 @
                              (if high \<and> \<not> list_ex (contains beschreibung) project_words
                               then [HighAmountNoProject betrag] else [])\<rparr>))
         | _ \<Rightarrow> Inr \<lparr>is_valid = True, errors = [], warnings = w1\<rparr>)"

text \<open>
  \<open>verify_single_result\<close> runs the four validations in turn. Only the financial check can
  clear \<open>is_valid\<close>; the other three report \<open>is_valid = True\<close> always, so their warnings
  are never copied into the result. An exception of a validation is not caught.
\<close>

definition verify_single_result :: "runtime \<Rightarrow> pydict \<Rightarrow> exn + validation" where
  "verify_single_result rt result =
     (case (if has_key result ''betrag''
            then (case validate_financial_data result of Inl e \<Rightarrow> Inl e
                  | Inr fc \<Rightarrow>
                      Inr (if is_valid fc then (True, []) else (False, errors fc)))
            else Inr (True, []))
      of Inl e \<Rightarrow> Inl e
       | Inr (ok, errs) \<Rightarrow>
      (case (if has_key result ''datum'' \<or> has_key result ''jahr''
             then (case validate_temporal_data rt result of Inl e \<Rightarrow> Inl e
                   | Inr dc \<Rightarrow> Inr (if is_valid dc then [] else warnings dc))
             else Inr [])
       of Inl e \<Rightarrow> Inl e
        | Inr w1 \<Rightarrow>
      (case (if has_key result ''filename'' \<or> has_key result ''dokument''
             then (case validate_document_data result of Inl e \<Rightarrow> Inl e
                   | Inr dc \<Rightarrow> Inr (if is_valid dc then [] else warnings dc))
             else Inr [])
       of Inl e \<Rightarrow> Inl e
        | Inr w2 \<Rightarrow>
      (case validate_consistency rt result of Inl e \<Rightarrow> Inl e
       | Inr cc \<Rightarrow>
           Inr \<lparr>is_valid = ok, errors = errs,
                warnings = w1 @ w2 @ (if is_valid cc then [] else warnings cc)\<rparr>))))"

record report =
  total_results :: nat
  verified_results :: nat
  rep_warnings :: "msg list"
  rep_errors :: "msg list"
  score :: int
  confidence :: string
  data_quality :: string

text \<open>The loop of \<open>verify_results\<close>: it stops at the first exception.\<close>

fun verify_loop :: "runtime \<Rightarrow> pydict list \<Rightarrow> report \<Rightarrow> exn + report" where
  "verify_loop rt [] v = Inr v"
| "verify_loop rt (result # rest) v =
     (case verify_single_result rt result of
        Inl e \<Rightarrow> Inl e
      | Inr rv \<Rightarrow>
          verify_loop rt rest
            (if is_valid rv then v\<lparr>verified_results := verified_results v + 1\<rparr>
             else v\<lparr>rep_warnings := rep_warnings v @ warnings rv,
                    rep_errors := rep_errors v @ errors rv\<rparr>))"

definition rate :: "report \<Rightarrow> report" where
  "rate v =
     (if 90 \<le> score v then v\<lparr>confidence := ''high'', data_quality := ''excellent''\<rparr>
      else if 70 \<le> score v then v\<lparr>confidence := ''medium'', data_quality := ''good''\<rparr>
      else v\<lparr>confidence := ''low'', data_quality := ''questionable''\<rparr>)"

definition verify_results :: "runtime \<Rightarrow> pydict list \<Rightarrow> exn + report" where
  "verify_results rt results =
     (let verification =
            \<lparr>total_results = length results, verified_results = 0, rep_warnings = [],
             rep_errors = [], score = 100, confidence = ''high'',
             data_quality = ''excellent''\<rparr>
      in if results = []
         then Inr (verification\<lparr>confidence := ''low'', data_quality := ''no_data''\<rparr>)
         else (case verify_loop rt results verification of
                 Inl e \<Rightarrow> Inl e
               | Inr v \<Rightarrow>
                   Inr (rate
                     (if 0 < total_results v
                      then v\<lparr>score := py_int_of_float
                             (fmul (fdiv (of_nat (verified_results v))
                                         (of_nat (total_results v))) 100)\<rparr>
                      else v))))"


text \<open>
  A batch passes a result when \<open>verify_single_result\<close> returns with \<open>is_valid\<close> set.
\<close>

definition single_ok :: "runtime \<Rightarrow> pydict \<Rightarrow> bool" where
  "single_ok rt result =
     (case verify_single_result rt result of Inl e \<Rightarrow> False | Inr rv \<Rightarrow> is_valid rv)"

section \<open>Query interpretation: \<open>nlp_processor.py\<close>\<close>

subsection \<open>Character classes of the regular expressions\<close>

definition is_digit :: "char \<Rightarrow> bool" where
  "is_digit c = (let n = of_char c :: nat in 48 \<le> n \<and> n \<le> 57)"

text \<open>\<open>\w\<close> on code points below 256: letters, digits, numeric signs and the underscore.\<close>

definition is_word_char :: "char \<Rightarrow> bool" where
  "is_word_char c =
     (let n = of_char c :: nat
      in (48 \<le> n \<and> n \<le> 57) \<or> (65 \<le> n \<and> n \<le> 90) \<or> n = 95 \<or> (97 \<le> n \<and> n \<le> 122) \<or>
         n = 170 \<or> n = 178 \<or> n = 179 \<or> n = 181 \<or> n = 185 \<or> n = 186 \<or>
         (188 \<le> n \<and> n \<le> 190) \<or> (192 \<le> n \<and> n \<le> 214) \<or> (216 \<le> n \<and> n \<le> 246) \<or>
         248 \<le> n)"

text \<open>\<open>\s\<close>, and the characters \<open>str.strip()\<close> removes.\<close>

definition is_space :: "char \<Rightarrow> bool" where
  "is_space c =
     (let n = of_char c :: nat
      in (9 \<le> n \<and> n \<le> 13) \<or> (28 \<le> n \<and> n \<le> 32) \<or> n = 133 \<or> n = 160)"

text \<open>
  The value of a string of decimal digits, and \<open>int(s)\<close> on such a string: above 640 digits
  the conversion raises \<open>ValueError\<close> when the string is longer than the limit of the
  runtime.
\<close>

definition int_of_digits :: "string \<Rightarrow> int" where
  "int_of_digits s = foldl (\<lambda>n c. 10 * n + (of_char c - 48)) 0 s"

definition too_many_digits :: "runtime \<Rightarrow> nat \<Rightarrow> bool" where
  "too_many_digits rt n = (0 < int_max_str_digits rt \<and> 640 < n \<and> int_max_str_digits rt < n)"

definition py_int :: "runtime \<Rightarrow> string \<Rightarrow> exn + int" where
  "py_int rt ds = (if too_many_digits rt (length ds) then Inl ValueError else Inr (int_of_digits ds))"

subsection \<open>Years\<close>

text \<open>
  The pattern \<open>\b(19|20)\d{2}\b\<close> at the head of a string whose preceding character is
  not a word character.
\<close>

fun year_at :: "string \<Rightarrow> bool" where
  "year_at (a # b # c # d # rest) =
     (([a, b] = ''19'' \<or> [a, b] = ''20'') \<and> is_digit c \<and> is_digit d \<and>
      (case rest of [] \<Rightarrow> True | e # _ \<Rightarrow> \<not> is_word_char e))"
| "year_at _ = False"

text \<open>
  \<open>re.findall\<close> with this pattern: the pattern has one capturing group, \<open>(19|20)\<close>, so
  \<open>findall\<close> returns for every match the text of that group, which is the first two
  characters of the match. The first argument tells whether the preceding character is a
  word character; the scan resumes behind a match.
\<close>

fun year_findall :: "bool \<Rightarrow> string \<Rightarrow> string list" where
  "year_findall prev_word [] = []"
| "year_findall prev_word (c # cs) =
     (if \<not> prev_word \<and> year_at (c # cs)
      then take 2 (c # cs) # year_findall True (drop 3 cs)
      else year_findall (is_word_char c) cs)"

text \<open>The pattern \<open>letzte[n]?\s+(\d+)\s+jahre\<close> at the head of a string; the result is group 1.\<close>

definition letzte_at :: "string \<Rightarrow> string option" where
  "letzte_at s =
     (if startswith s ''letzte''
      then let r1 = drop 6 s;
               r2 = (if startswith r1 ''n'' then drop 1 r1 else r1);
               r3 = dropWhile is_space r2;
               ds = takeWhile is_digit r3;
               r4 = dropWhile is_digit r3;
               r5 = dropWhile is_space r4
           in if takeWhile is_space r2 \<noteq> [] \<and> ds \<noteq> [] \<and> takeWhile is_space r4 \<noteq> [] \<and>
                 startswith r5 ''jahre''
              then Some ds else None
      else None)"

fun letzte_search :: "string \<Rightarrow> string option" where
  "letzte_search [] = None"
| "letzte_search (c # cs) =
     (case letzte_at (c # cs) of Some ds \<Rightarrow> Some ds | None \<Rightarrow> letzte_search cs)"

text \<open>
  \<open>NLPProcessor._extract_years\<close>; \<open>current_year\<close> is \<open>datetime.now().year\<close>. The years
  of the 4-digit tokens (\<open>direct_years\<close>) and of the relative phrases (\<open>relative_years\<close>)
  are collected in one list, which is returned without duplicates in descending order.
  A match of the year pattern is reported as a group of two digits, which \<open>int\<close> always
  converts. The number in \<open>letzte N jahre\<close> has any length: \<open>int\<close> raises \<open>ValueError\<close>
  above the digit limit, and extending the list by a range of more than \<open>sys.maxsize\<close>
  years raises \<open>OverflowError\<close>. Neither is caught in \<open>_extract_years\<close>. Running out of
  memory on a long range is not modelled.
\<close>

definition direct_years :: "int \<Rightarrow> string \<Rightarrow> int list" where
  "direct_years current_year query =
     filter (\<lambda>year. 1990 \<le> year \<and> year \<le> current_year + 1)
       (map (\<lambda>m. int_of_digits m) (year_findall False query))"

definition year_range :: "runtime \<Rightarrow> string \<Rightarrow> exn + int list" where
  "year_range rt ds =
     (case py_int rt ds of
        Inl e \<Rightarrow> Inl e
      | Inr num_years \<Rightarrow>
          if sys_maxsize rt < num_years then Inl OverflowError
          else Inr [now_year rt - num_years + 1 .. now_year rt])"

definition relative_years :: "runtime \<Rightarrow> string \<Rightarrow> exn + int list" where
  "relative_years rt query =
     (if list_ex (contains query) [''letztes jahr'', ''voriges jahr'', ''vergangenes jahr'']
      then Inr [now_year rt - 1]
      else if list_ex (contains query) [''dieses jahr'', ''aktuelles jahr'']
      then Inr [now_year rt]
      else if contains query ''letzte'' \<and> contains query ''jahre''
      then (case letzte_search query of
              Some ds \<Rightarrow> year_range rt ds
            | None \<Rightarrow> Inr [])
      else Inr [])"

definition extract_years :: "runtime \<Rightarrow> string \<Rightarrow> exn + int list" where
  "extract_years rt query =
     (case relative_years rt query of
        Inl e \<Rightarrow> Inl e
      | Inr relative \<Rightarrow>
          Inr (rev (sort (remdups (direct_years (now_year rt) query @ relative)))))"

subsection \<open>Amounts\<close>




text \<open>
  A plain decimal literal is a string of digits, a point and a string of digits, where the
  point and one of the two strings may be missing but not both strings. \<open>float\<close> returns
  the float nearest to its value, or infinity.
\<close>

definition decimal_literal :: "string \<Rightarrow> (string \<times> string) option" where
  "decimal_literal s =
     (let a = takeWhile (\<lambda>c. c \<noteq> CHR ''.'') s; r = dropWhile (\<lambda>c. c \<noteq> CHR ''.'') s
      in if \<not> list_all is_digit a then None
         else if r = [] then (if a = [] then None else Some (a, []))
         else if list_all is_digit (tl r) \<and> (a \<noteq> [] \<or> tl r \<noteq> []) then Some (a, tl r)
         else None)"

definition decimal_value :: "string \<times> string \<Rightarrow> rat" where
  "decimal_value p =
     of_int (int_of_digits (fst p)) + of_int (int_of_digits (snd p)) / 10 ^ length (snd p)"

definition py_float :: "runtime \<Rightarrow> string \<Rightarrow> pyfloat option" where
  "py_float rt s =
     (case decimal_literal s of
        Some p \<Rightarrow> Some (nearest_float (decimal_value p))
      | None \<Rightarrow> float_of_other rt s)"


subsection \<open>The entry point\<close>

text \<open>
  \<open>NLPProcessor.analyze_query\<close> runs its steps inside \<open>try\<close> and catches every
  \<open>Exception\<close>. The steps are parameters here, each of them free to raise, so that the
  handler is modelled for whatever goes wrong inside them. A field that one of the two
  returned dicts lacks is \<open>None\<close>; the keys \<open>keywords\<close> and \<open>context\<close> are the fields
  \<open>query_keywords\<close> and \<open>query_context\<close>.
\<close>

record ('v, 'c, 'e) nlp_steps =
  normalize_query :: "string \<Rightarrow> 'e + string"
  detect_intent :: "string \<Rightarrow> 'e + string"
  extract_entities :: "string \<Rightarrow> 'e + (string \<times> 'v) list"
  extract_keywords :: "string \<Rightarrow> 'e + string list"
  analyze_context :: "string \<Rightarrow> (string \<times> 'v) list \<Rightarrow> 'e + 'c"
  calculate_confidence :: "string \<Rightarrow> (string \<times> 'v) list \<Rightarrow> string list \<Rightarrow> 'e + rat"
  isoformat_now :: "'e + string"

record ('v, 'c, 'e) analysis =
  original_query :: string
  normalized_query :: "string option"
  intent :: string
  entities :: "(string \<times> 'v) list"
  query_keywords :: "string list"
  query_context :: "'c option"
  an_confidence :: rat
  timestamp :: "string option"
  error :: "'e option"

definition analyze_try ::
  "('v, 'c, 'e) nlp_steps \<Rightarrow> string \<Rightarrow> 'e + ('v, 'c, 'e) analysis" where
  "analyze_try st query =
     (case normalize_query st query of Inl e \<Rightarrow> Inl e | Inr normalized \<Rightarrow>
     (case detect_intent st normalized of Inl e \<Rightarrow> Inl e | Inr i \<Rightarrow>
     (case extract_entities st normalized of Inl e \<Rightarrow> Inl e | Inr ents \<Rightarrow>
     (case extract_keywords st normalized of Inl e \<Rightarrow> Inl e | Inr kws \<Rightarrow>
     (case analyze_context st normalized ents of Inl e \<Rightarrow> Inl e | Inr ctx \<Rightarrow>
     (case calculate_confidence st i ents kws of Inl e \<Rightarrow> Inl e | Inr conf \<Rightarrow>
     (case isoformat_now st of Inl e \<Rightarrow> Inl e | Inr ts \<Rightarrow>
        Inr \<lparr>original_query = query, normalized_query = Some normalized, intent = i,
             entities = ents, query_keywords = kws, query_context = Some ctx, an_confidence = conf,
             timestamp = Some ts, error = None\<rparr>)))))))"

definition analyze_query ::
  "('v, 'c, 'e) nlp_steps \<Rightarrow> string \<Rightarrow> ('v, 'c, 'e) analysis" where
  "analyze_query st query =
     (case analyze_try st query of
        Inr result \<Rightarrow> result
      | Inl e \<Rightarrow>
          \<lparr>original_query = query, normalized_query = None, intent = ''general_search'',
           entities = [], query_keywords = [query], query_context = None, an_confidence = fl (1 / 2),
           timestamp = None, error = Some e\<rparr>)"

section \<open>The fact checker: \<open>gmunden_complete_system/backend/fact_checker.py\<close>\<close>

subsection \<open>Issues and the known-facts database\<close>

text \<open>
  An issue string is represented by a constructor that carries the values interpolated
  into the message. The reason column of a suspicious entry is the list of issues that the
  source joins with \<open>'; '\<close>.
\<close>

datatype issue =
    IMissingField string
  | IYearNotInteger
  | IAmountNotNumber
  | IOutOfRange string pyval
  | INotAllowed string pyval
  | IAmountTooLow pyval string
  | IAmountTooHigh pyval string
  | IYearDateMismatch pyval string
  | IDescriptionTooShort
  | ISuspiciousWords
  | ISuspiciousPattern nat
  | IAlreadyFlagged "issue list"
  | INoSimilarFacts
  | INotRelevant
  | IVerificationError exn

text \<open>
  The two tables, each keyed by its unique hash column: \<open>verified_facts\<close> gives the
  confidence of a fact, \<open>suspicious_entries\<close> the reason and the \<open>resolved\<close> flag.
  \<open>known_facts_db\<close> is \<open>None\<close> when the database could not be set up.
\<close>

record store =
  verified_facts :: "string \<Rightarrow> rat option"
  suspicious_entries :: "string \<Rightarrow> (issue list \<times> bool) option"

subsection \<open>Serialisation\<close>

definition hex_digit :: "nat \<Rightarrow> char" where
  "hex_digit n = (if n < 10 then char_of (48 + n) else char_of (87 + n))"

text \<open>\<open>json.dumps\<close> with \<open>ensure_ascii\<close>: a string in double quotes, escaped.\<close>

definition json_escape :: "char \<Rightarrow> string" where
  "json_escape c =
     (let n = of_char c :: nat
      in if c = CHR 0x22 then [CHR 0x5C, CHR 0x22]
         else if c = CHR 0x5C then [CHR 0x5C, CHR 0x5C]
         else if n = 10 then [CHR 0x5C, CHR ''n'']
         else if n = 13 then [CHR 0x5C, CHR ''r'']
         else if n = 9 then [CHR 0x5C, CHR ''t'']
         else if n = 8 then [CHR 0x5C, CHR ''b'']
         else if n = 12 then [CHR 0x5C, CHR ''f'']
         else if n < 32 \<or> 126 < n
         then [CHR 0x5C, CHR ''u'', CHR ''0'', CHR ''0'', hex_digit (n div 16), hex_digit (n mod 16)]
         else [c])"

definition json_string :: "string \<Rightarrow> string" where
  "json_string s = CHR 0x22 # concat (map json_escape s) @ [CHR 0x22]"

text \<open>A value that JSON does not know is passed through \<open>default=str\<close> and written as a string.\<close>

fun json_value :: "runtime \<Rightarrow> pyval \<Rightarrow> string" where
  "json_value rt PNone = ''null''"
| "json_value rt (PBool b) = (if b then ''true'' else ''false'')"
| "json_value rt (PInt i) = str_of_int i"
| "json_value rt (PFloat q) = float_repr rt q"
| "json_value rt (PStr s) = json_string s"
| "json_value rt (PObj s) = json_string s"

fun join :: "string \<Rightarrow> string list \<Rightarrow> string" where
  "join sep [] = []"
| "join sep [x] = x"
| "join sep (x # y # ys) = x @ sep @ join sep (y # ys)"

definition json_dumps :: "runtime \<Rightarrow> pydict \<Rightarrow> string" where
  "json_dumps rt d =
     ''{'' @ join '', '' (map (\<lambda>(k, v). json_string k @ '': '' @ json_value rt v) d) @ ''}''"

subsection \<open>The rules\<close>

definition valid_ranges_jahr :: "runtime \<Rightarrow> rat \<times> rat" where
  "valid_ranges_jahr rt = (2000, of_int (now_year rt + 1))"

definition valid_ranges_betrag :: "rat \<times> rat" where
  "valid_ranges_betrag = (- 1000000, 10000000)"

definition valid_ranges_kategorie :: "string list" where
  "valid_ranges_kategorie =
     [''infrastruktur'', ''personal'', ''kultur'', ''umwelt'', ''bildung'', ''soziales'',
      ''verwaltung'', ''sonstiges'']"

text \<open>\<open>plausibility_rules\<close>: minimum and maximum amount of a category.\<close>

definition plausibility_rules :: "string \<Rightarrow> (rat \<times> rat) option" where
  "plausibility_rules category =
     (if category = ''personal'' then Some (1000, 500000)
      else if category = ''infrastruktur'' then Some (100, 5000000)
      else if category = ''kultur'' then Some (50, 100000)
      else None)"

subsection \<open>1. Structure\<close>

definition strip :: "string \<Rightarrow> string" where
  "strip s = rev (dropWhile is_space (rev (dropWhile is_space s)))"

text \<open>
  Whether \<open>int(s)\<close> accepts a string: surrounding whitespace, an optional sign, and digits
  that single underscores may separate, no more of them than the digit limit allows. The
  whitespace that \<open>int\<close> skips is the ASCII whitespace and the whitespace above 127; the
  separators \<open>0x1C\<close> to \<open>0x1F\<close>, which \<open>str.strip\<close> removes, are not among it.
\<close>

definition is_int_space :: "char \<Rightarrow> bool" where
  "is_int_space c =
     (let n = of_char c :: nat in (9 \<le> n \<and> n \<le> 13) \<or> n = 32 \<or> n = 133 \<or> n = 160)"

fun int_body :: "bool \<Rightarrow> string \<Rightarrow> bool" where
  "int_body after_digit [] = after_digit"
| "int_body after_digit (c # cs) =
     (if is_digit c then int_body True cs
      else if c = CHR ''_'' \<and> after_digit then (cs \<noteq> [] \<and> is_digit (hd cs) \<and> int_body False cs)
      else False)"

definition int_accepts :: "runtime \<Rightarrow> string \<Rightarrow> bool" where
  "int_accepts rt s =
     (let t = rev (dropWhile is_int_space (rev (dropWhile is_int_space s)));
          u = (if startswith t ''+'' \<or> startswith t ''-'' then drop 1 t else t)
      in u \<noteq> [] \<and> int_body False u \<and> \<not> too_many_digits rt (length (filter is_digit u)))"

definition check_data_structure :: "runtime \<Rightarrow> pydict \<Rightarrow> bool \<times> issue list" where
  "check_data_structure rt result =
     (let i1 = (case map_of result ''beschreibung'' of
                  None \<Rightarrow> [IMissingField ''beschreibung'']
                | Some v \<Rightarrow> if truthy v then [] else [IMissingField ''beschreibung'']);
          i2 = (case map_of result ''jahr'' of
                  None \<Rightarrow> []
                | Some v \<Rightarrow>
                    if \<not> truthy v then []
                    else (case v of
                            PStr s \<Rightarrow> if int_accepts rt s then [] else [IYearNotInteger]
                          | PObj s \<Rightarrow> [IYearNotInteger]
                          | _ \<Rightarrow> []));
          i3 = (case map_of result ''betrag'' of
                  None \<Rightarrow> []
                | Some v \<Rightarrow>
                    (case v of
                       PStr s \<Rightarrow> if py_float rt s \<noteq> None then [] else [IAmountNotNumber]
                     | PObj s \<Rightarrow> [IAmountNotNumber]
                     | _ \<Rightarrow> []));
          issues = i1 @ i2 @ i3
      in (issues = [], issues))"

subsection \<open>2. Ranges\<close>

text \<open>
  \<open>lo <= value <= hi\<close> against a value that is not a number raises \<open>TypeError\<close>, which
  \<open>_check_value_ranges\<close> does not catch.
\<close>

definition range_issue :: "string \<Rightarrow> rat \<times> rat \<Rightarrow> pydict \<Rightarrow> exn + issue list" where
  "range_issue field valid_range result =
     (case map_of result field of
        None \<Rightarrow> Inr []
      | Some PNone \<Rightarrow> Inr []
      | Some v \<Rightarrow>
          (case num_of v of
             None \<Rightarrow> Inl TypeError
           | Some x \<Rightarrow>
               Inr (if fst valid_range \<le> x \<and> x \<le> snd valid_range then []
                    else [IOutOfRange field v])))"

definition check_value_ranges :: "runtime \<Rightarrow> pydict \<Rightarrow> exn + bool \<times> issue list" where
  "check_value_ranges rt result =
     (case range_issue ''jahr'' (valid_ranges_jahr rt) result of
        Inl e \<Rightarrow> Inl e
      | Inr i1 \<Rightarrow>
          (case range_issue ''betrag'' valid_ranges_betrag result of
             Inl e \<Rightarrow> Inl e
           | Inr i2 \<Rightarrow>
               (let i3 = (case map_of result ''kategorie'' of
                            None \<Rightarrow> []
                          | Some PNone \<Rightarrow> []
                          | Some v \<Rightarrow>
                              if lower (py_str rt v) \<in> set (map lower valid_ranges_kategorie)
                              then [] else [INotAllowed ''kategorie'' v]);
                    issues = i1 @ i2 @ i3
                in Inr (issues = [], issues))))"

subsection \<open>3. Plausibility\<close>

definition replace_Z :: "string \<Rightarrow> string" where
  "replace_Z s = concat (map (\<lambda>c. if c = CHR ''Z'' then ''+00:00'' else [c]) s)"

definition suspicious_words :: "string list" where
  "suspicious_words = [''fake'', ''test'', ''dummy'', ''beispiel'', ''placeholder'']"

definition check_plausibility :: "runtime \<Rightarrow> pydict \<Rightarrow> exn + bool \<times> issue list" where
  "check_plausibility rt result =
     (case (case (map_of result ''kategorie'', map_of result ''betrag'') of
              (Some k, Some amount) \<Rightarrow>
                (let category = lower (py_str rt k)
                 in case plausibility_rules category of
                      None \<Rightarrow> Inr []
                    | Some rules \<Rightarrow>
                        if amount = PNone then Inr []
                        else (case num_of amount of
                                None \<Rightarrow> Inl TypeError
                              | Some x \<Rightarrow>
                                  Inr ((if x < fst rules then [IAmountTooLow amount category]
                                        else []) @
                                       (if snd rules < x then [IAmountTooHigh amount category]
                                        else []))))
            | _ \<Rightarrow> Inr [])
      of Inl e \<Rightarrow> Inl e
       | Inr i1 \<Rightarrow>
           (let i2 = (case (map_of result ''jahr'', map_of result ''datum'') of
                        (Some year, Some (PStr datum)) \<Rightarrow>
                          (case fromisoformat_year rt (replace_Z datum) of
                             None \<Rightarrow> []
                           | Some y \<Rightarrow>
                               if num_of year = Some (of_int y) then []
                               else [IYearDateMismatch year datum])
                      | _ \<Rightarrow> []);
                i3 = (case map_of result ''beschreibung'' of
                        None \<Rightarrow> []
                      | Some b \<Rightarrow>
                          (let desc = lower (py_str rt b)
                           in (if length (strip desc) < 3 then [IDescriptionTooShort] else []) @
                              (if list_ex (contains desc) suspicious_words
                               then [ISuspiciousWords] else [])));
                issues = i1 @ i2 @ i3
            in Inr (issues = [], issues)))"

subsection \<open>4. Suspicious patterns\<close>

text \<open>
  Each pattern has the shape \<open>word.*tail\<close> and is searched in the lower-cased JSON text of
  the result, which is ASCII and holds no line break: it matches when the tail matches
  somewhere behind the first occurrence of the word. A tail is given as a test on the text
  that starts at a position.
\<close>

fun tails :: "string \<Rightarrow> string list" where
  "tails [] = [[]]"
| "tails (c # cs) = (c # cs) # tails cs"

fun search_after :: "string \<Rightarrow> (string \<Rightarrow> bool) \<Rightarrow> string \<Rightarrow> bool" where
  "search_after word tail [] = False"
| "search_after word tail (c # cs) =
     (if startswith (c # cs) word then list_ex tail (tails (drop (length word) (c # cs)))
      else search_after word tail cs)"

definition in_class :: "char \<Rightarrow> char \<Rightarrow> char \<Rightarrow> bool" where
  "in_class lo hi c = ((of_char lo :: nat) \<le> of_char c \<and> (of_char c :: nat) \<le> of_char hi)"

text \<open>\<open>[1-9]\d{n,}\<close>\<close>

definition long_number :: "nat \<Rightarrow> string \<Rightarrow> bool" where
  "long_number n s =
     (case s of
        [] \<Rightarrow> False
      | c # cs \<Rightarrow> in_class (CHR ''1'') (CHR ''9'') c \<and> n \<le> length (takeWhile is_digit cs))"

text \<open>\<open>19[0-8]\d\<close> and \<open>20[3-9]\d\<close>\<close>

fun year_before_1990 :: "string \<Rightarrow> bool" where
  "year_before_1990 (a # b # c # d # rest) =
     ([a, b] = ''19'' \<and> in_class (CHR ''0'') (CHR ''8'') c \<and> is_digit d)"
| "year_before_1990 _ = False"

fun year_after_2029 :: "string \<Rightarrow> bool" where
  "year_after_2029 (a # b # c # d # rest) =
     ([a, b] = ''20'' \<and> in_class (CHR ''3'') (CHR ''9'') c \<and> is_digit d)"
| "year_after_2029 _ = False"

definition starts_any :: "string list \<Rightarrow> string \<Rightarrow> bool" where
  "starts_any ws s = list_ex (startswith s) ws"

text \<open>The seven patterns, numbered in the order of the source.\<close>

definition suspicious_patterns :: "(nat \<times> (string \<Rightarrow> bool)) list" where
  "suspicious_patterns =
     [(0, search_after ''betrag'' (long_number 8)),
      (1, search_after ''betrag'' (\<lambda>s. startswith s ''-'' \<and> long_number 7 (drop 1 s))),
      (2, search_after ''jahr'' (\<lambda>s. year_before_1990 s \<or> year_after_2029 s)),
      (3, search_after ''datum'' year_before_1990),
      (4, search_after ''beschreibung'' (starts_any [''alien'', ''ufo'', ''zeitreise'', ''magie''])),
      (5, search_after ''beschreibung'' (starts_any [''milliarde'', ''billion''])),
      (6, search_after ''kategorie'' (starts_any [''weltraum'', ''mars'', ''mond'']))]"

definition check_suspicious_patterns :: "runtime \<Rightarrow> pydict \<Rightarrow> bool \<times> issue list" where
  "check_suspicious_patterns rt result =
     (let result_str = lower (json_dumps rt result);
          issues = map (\<lambda>p. ISuspiciousPattern (fst p))
                     (filter (\<lambda>p. snd p result_str) suspicious_patterns)
      in (issues = [], issues))"

subsection \<open>5. Consistency with known facts\<close>

definition hash_fields :: "string list" where
  "hash_fields = [''jahr'', ''kategorie'', ''beschreibung'', ''betrag'']"

text \<open>
  The fingerprint: the fields of \<open>hash_fields\<close> that the result holds, written by
  \<open>json.dumps\<close> with sorted keys, and the MD5 digest of that text.
\<close>

definition hash_data :: "pydict \<Rightarrow> pydict" where
  "hash_data result =
     concat (map (\<lambda>field. case map_of result field of None \<Rightarrow> [] | Some v \<Rightarrow> [(field, v)])
               hash_fields)"

definition calculate_result_hash :: "runtime \<Rightarrow> pydict \<Rightarrow> string" where
  "calculate_result_hash rt result =
     md5_hexdigest rt (json_dumps rt (sort_key fst (hash_data result)))"

definition find_similar_facts_confidence :: "pydict \<Rightarrow> rat" where
  "find_similar_facts_confidence result =
     (if has_key result ''kategorie'' \<and> has_key result ''jahr'' then fl (8 / 10)
      else if has_key result ''kategorie'' \<or> has_key result ''jahr'' then fl (6 / 10)
      else fl (5 / 10))"

definition check_consistency_with_known_facts ::
  "runtime \<Rightarrow> store option \<Rightarrow> pydict \<Rightarrow> rat \<times> issue list" where
  "check_consistency_with_known_facts rt known_facts_db result =
     (case known_facts_db of
        None \<Rightarrow> (1, [])
      | Some db \<Rightarrow>
          (let result_hash = calculate_result_hash rt result
           in case verified_facts db result_hash of
                Some c \<Rightarrow> (c, [])
              | None \<Rightarrow>
                  (case suspicious_entries db result_hash of
                     Some (reason, False) \<Rightarrow> (fl (3 / 10), [IAlreadyFlagged reason])
                   | _ \<Rightarrow>
                       (let similar_confidence = find_similar_facts_confidence result
                        in (similar_confidence,
                            if fl (8 / 10) \<le> similar_confidence then []
                            else [INoSimilarFacts])))))"

subsection \<open>6. Relevance to the query\<close>

text \<open>\<open>re.findall(r'\b\w+\b', s)\<close>: the maximal runs of word characters.\<close>

fun words_from :: "string \<Rightarrow> string \<Rightarrow> string list" where
  "words_from acc [] = (if acc = [] then [] else [rev acc])"
| "words_from acc (c # cs) =
     (if is_word_char c then words_from (c # acc) cs
      else if acc = [] then words_from [] cs
      else rev acc # words_from [] cs)"

definition relevance_stopwords :: "string list" where
  "relevance_stopwords =
     [''der'', ''die'', ''das'', ''und'', ''oder'', [CHR ''f'', CHR 0xFC, CHR ''r''], ''von'',
      ''mit'', ''zu'', ''in'', ''auf'']"

definition word_set :: "string \<Rightarrow> string list" where
  "word_set s = filter (\<lambda>w. w \<notin> set relevance_stopwords) (remdups (words_from [] s))"

definition check_query_relevance :: "runtime \<Rightarrow> pydict \<Rightarrow> string \<Rightarrow> bool" where
  "check_query_relevance rt result query =
     (let query_lower = lower query;
          result_text = lower (join '' '' (map (py_str rt) (filter truthy (map snd result))));
          query_words = word_set query_lower;
          result_words = word_set result_text
      in if query_words = [] then True
         else (let matches = filter (\<lambda>w. w \<in> set result_words) query_words
               in fl (3 / 10) \<le> fdiv (of_nat (length matches)) (of_nat (length query_words))))"

subsection \<open>Writing to the database\<close>

definition store_verified_fact :: "runtime \<Rightarrow> store option \<Rightarrow> pydict \<Rightarrow> store option" where
  "store_verified_fact rt known_facts_db result =
     (case known_facts_db of
        None \<Rightarrow> None
      | Some db \<Rightarrow>
          Some (db\<lparr>verified_facts :=
                  (verified_facts db)(calculate_result_hash rt result \<mapsto> fl (9 / 10))\<rparr>))"

definition log_suspicious_entry ::
  "runtime \<Rightarrow> store option \<Rightarrow> pydict \<Rightarrow> issue list \<Rightarrow> store option" where
  "log_suspicious_entry rt known_facts_db result issues =
     (case known_facts_db of
        None \<Rightarrow> None
      | Some db \<Rightarrow>
          Some (db\<lparr>suspicious_entries :=
                  (suspicious_entries db)(calculate_result_hash rt result \<mapsto> (issues, False))\<rparr>))"

subsection \<open>Verifying one result\<close>

record fact_check_result =
  is_verified :: bool
  fc_confidence :: rat
  source :: string
  verification_method :: string
  issues :: "issue list"
  metadata :: "(nat \<times> string) option"

text \<open>
  The body of the \<open>try\<close> block up to the decision: the six checks in turn, each extending
  the issues and, when it fails, multiplying the confidence by its factor.
\<close>

definition penalty :: "bool \<Rightarrow> rat \<Rightarrow> rat \<Rightarrow> rat" where
  "penalty valid factor conf = (if valid then conf else fmul conf factor)"

definition run_checks ::
  "runtime \<Rightarrow> store option \<Rightarrow> pydict \<Rightarrow> string \<Rightarrow> exn + rat \<times> issue list" where
  "run_checks rt known_facts_db result query =
     (let structural_check = check_data_structure rt result;
          c1 = penalty (fst structural_check) (fl (7 / 10)) 1
      in case check_value_ranges rt result of
           Inl e \<Rightarrow> Inl e
         | Inr range_check \<Rightarrow>
             (let c2 = penalty (fst range_check) (fl (6 / 10)) c1
              in case check_plausibility rt result of
                   Inl e \<Rightarrow> Inl e
                 | Inr plausibility_check \<Rightarrow>
                     (let c3 = penalty (fst plausibility_check) (fl (8 / 10)) c2;
                          pattern_check = check_suspicious_patterns rt result;
                          c4 = penalty (fst pattern_check) (fl (3 / 10)) c3;
                          consistency_check =
                            check_consistency_with_known_facts rt known_facts_db result;
                          c5 = (if fst consistency_check < 1 then fmul c4 (fst consistency_check)
                                else c4);
                          relevant = check_query_relevance rt result query;
                          c6 = penalty relevant (fl (9 / 10)) c5
                      in Inr (c6,
                              snd structural_check @ snd range_check @ snd plausibility_check @
                              snd pattern_check @
                              (if fst consistency_check < 1 then snd consistency_check else []) @
                              (if relevant then [] else [INotRelevant])))))"



definition all_methods :: string where
  "all_methods = ''structural+range+plausibility+pattern+consistency+relevance''"

definition verify_single_result_backend ::
  "runtime \<Rightarrow> store option \<Rightarrow> pydict \<Rightarrow> string \<Rightarrow> fact_check_result \<times> store option" where
  "verify_single_result_backend rt known_facts_db result query =
     (case run_checks rt known_facts_db result query of
        Inl e \<Rightarrow>
          (\<lparr>is_verified = False, fc_confidence = 0, source = ''error'',
            verification_method = ''error'', issues = [IVerificationError e],
            metadata = None\<rparr>,
           known_facts_db)
      | Inr (conf, found) \<Rightarrow>
          (let verified = (fl (7 / 10) \<le> conf \<and> length found \<le> 2)
           in (\<lparr>is_verified = verified, fc_confidence = conf,
                source = ''gmunden_fact_checker'', verification_method = all_methods,
                issues = found, metadata = Some (6, query)\<rparr>,
               if verified \<and> fl (9 / 10) \<le> conf
               then store_verified_fact rt known_facts_db result
               else known_facts_db)))"

subsection \<open>Verifying a batch\<close>

text \<open>
  An element of the batch is a dict object. \<open>frozen\<close> marks an instance of a dict
  subclass that rejects item assignment (an immutable dict): it reads like any dict, and
  \<open>result['_fact_check'] = ...\<close> raises \<open>TypeError\<close> on it. The entry \<open>_fact_check\<close>
  that the batch writes into a result, and the entry \<open>_verification_stats\<close>, are kept
  beside the fields the result came with.
\<close>

record candidate =
  items :: pydict
  frozen :: bool

record fact_check_note =
  note_verified :: bool
  note_confidence :: rat
  note_method :: "string option"
  note_source :: "string option"
  note_issues :: "issue list option"
  note_warning :: "string option"

record verification_stats =
  total :: nat
  verified :: nat
  suspicious :: nat
  filtered :: nat

record entry =
  cand :: candidate
  fact_check :: "fact_check_note option"
  attached_stats :: "verification_stats option"

definition untouched :: "candidate \<Rightarrow> entry" where
  "untouched r = \<lparr>cand = r, fact_check = None, attached_stats = None\<rparr>"

definition verified_note :: "fact_check_result \<Rightarrow> fact_check_note" where
  "verified_note fc =
     \<lparr>note_verified = True, note_confidence = fc_confidence fc,
      note_method = Some (verification_method fc), note_source = Some (source fc),
      note_issues = None, note_warning = None\<rparr>"

definition suspicious_note :: "fact_check_result \<Rightarrow> fact_check_note" where
  "suspicious_note fc =
     \<lparr>note_verified = False, note_confidence = fc_confidence fc,
      note_method = None, note_source = None, note_issues = Some (issues fc),
      note_warning = Some (''Daten nicht vollst'' @ [CHR 0xE4] @ ''ndig verifiziert'')\<rparr>"

text \<open>
  The state of the loop: the database, the results seen so far as they now are in the
  input list (\<open>ls_done\<close>), the list \<open>verified_results\<close> (\<open>ls_kept\<close>) and the counters.
  A result is annotated in place, so the annotated object is in both lists.
\<close>

record loop_state =
  ls_db :: "store option"
  ls_done :: "entry list"
  ls_kept :: "entry list"
  ls_stats :: verification_stats

text \<open>
  The loop returns its last state, the results it did not finish, and the exception that
  stopped it, if any.
\<close>

fun batch_loop ::
  "runtime \<Rightarrow> string \<Rightarrow> candidate list \<Rightarrow> loop_state \<Rightarrow>
     loop_state \<times> candidate list \<times> exn option" where
  "batch_loop rt query [] st = (st, [], None)"
| "batch_loop rt query (r # rest) st =
     (let (fc, db1) = verify_single_result_backend rt (ls_db st) (items r) query
      in if is_verified fc
         then (if frozen r then (st\<lparr>ls_db := db1\<rparr>, r # rest, Some TypeError)
               else (let e = \<lparr>cand = r, fact_check = Some (verified_note fc),
                               attached_stats = None\<rparr>
                     in batch_loop rt query rest
                          (st\<lparr>ls_db := db1, ls_done := ls_done st @ [e],
                              ls_kept := ls_kept st @ [e],
                              ls_stats := (ls_stats st)
                                \<lparr>verified := verified (ls_stats st) + 1\<rparr>\<rparr>)))
         else if fl (5 / 10) < fc_confidence fc
         then (if frozen r then (st\<lparr>ls_db := db1\<rparr>, r # rest, Some TypeError)
               else (let e = \<lparr>cand = r, fact_check = Some (suspicious_note fc),
                               attached_stats = None\<rparr>
                     in batch_loop rt query rest
                          (st\<lparr>ls_db := db1, ls_done := ls_done st @ [e],
                              ls_kept := ls_kept st @ [e],
                              ls_stats := (ls_stats st)
                                \<lparr>suspicious := suspicious (ls_stats st) + 1\<rparr>\<rparr>)))
         else batch_loop rt query rest
                (st\<lparr>ls_db := log_suspicious_entry rt db1 (items r) (issues fc),
                    ls_done := ls_done st @ [untouched r],
                    ls_stats := (ls_stats st)\<lparr>filtered := filtered (ls_stats st) + 1\<rparr>\<rparr>))"

text \<open>
  What a call of \<open>verify_results\<close> leaves behind: the list it returns, the database, the
  statistics it logged, and the exception its handler caught.
\<close>

record batch_result =
  returned :: "entry list"
  db_after :: "store option"
  logged_stats :: "verification_stats option"
  raised :: "exn option"

definition verify_results_backend ::
  "runtime \<Rightarrow> store option \<Rightarrow> candidate list \<Rightarrow> string \<Rightarrow> batch_result" where
  "verify_results_backend rt known_facts_db results query =
     (if results = []
      then \<lparr>returned = [], db_after = known_facts_db, logged_stats = None, raised = None\<rparr>
      else (case batch_loop rt query results
                   \<lparr>ls_db = known_facts_db, ls_done = [], ls_kept = [],
                    ls_stats = \<lparr>total = length results, verified = 0, suspicious = 0,
                                 filtered = 0\<rparr>\<rparr> of
              (st, rest, Some e) \<Rightarrow>
                \<lparr>returned = ls_done st @ map untouched rest, db_after = ls_db st,
                 logged_stats = None, raised = Some e\<rparr>
            | (st, rest, None) \<Rightarrow>
                \<lparr>returned =
                   (case ls_kept st of
                      [] \<Rightarrow> []
                    | first # others \<Rightarrow>
                        first\<lparr>attached_stats := Some (ls_stats st)\<rparr> # others),
                 db_after = ls_db st, logged_stats = Some (ls_stats st), raised = None\<rparr>))"

section \<open>A runtime for the examples\<close>

text \<open>
  The concrete examples below run in the year 2026. None of their inputs holds a float
  with a fractional part or a date string, so \<open>repr\<close> is given for floats with an integral
  value only, and the date parsers and \<open>float\<close> on other than plain decimal literals reject
  their argument. The digest is the identity.
\<close>

definition empty_store :: store where
  "empty_store = \<lparr>verified_facts = (\<lambda>h. None), suspicious_entries = (\<lambda>h. None)\<rparr>"

definition example_runtime :: runtime where
  "example_runtime =
     \<lparr>now_year = 2026,
      float_repr = (\<lambda>q. str_of_int \<lfloor>q\<rfloor> @ ''.0''),
      md5_hexdigest = (\<lambda>s. s),
      fromisoformat_year = (\<lambda>s. None),
      strptime_check = (\<lambda>s. NoFormat),
      float_of_other = (\<lambda>s. None),
      int_max_str_digits = 4300,
      sys_maxsize = 9223372036854775807\<rparr>"

section \<open>Rounding to the nearest float\<close>

lemma bitlen_powi:
  assumes "0 < a"
  shows "(2::rat) powi (bitlen a - 1) \<le> of_int a" "of_int a < (2::rat) powi (bitlen a)"
proof -
  from bitlen_bounds [OF assms] have lo: "2 ^ nat (bitlen a - 1) \<le> a" and hi: "a < 2 ^ nat (bitlen a)"
    by auto
  have pos: "1 \<le> bitlen a" using assms by (auto simp: bitlen_alt_def)
  have "(of_int (2 ^ nat (bitlen a - 1)) :: rat) \<le> of_int a" using lo by (simp only: of_int_le_iff)
  then show "(2::rat) powi (bitlen a - 1) \<le> of_int a" using pos by (simp add: power_int_def)
  have "(of_int a :: rat) < of_int (2 ^ nat (bitlen a))" using hi by (simp only: of_int_less_iff)
  then show "of_int a < (2::rat) powi (bitlen a)" using pos by (simp add: power_int_def)
qed

lemma ilog2_bounds:
  assumes "0 < x"
  shows "2 powi (ilog2 x) \<le> x" "x < 2 powi (ilog2 x + 1)"
proof -
  obtain a b where q: "quotient_of x = (a, b)" by (cases "quotient_of x")
  then have b: "0 < b" and x: "x = of_int a / of_int b"
    by (auto dest: quotient_of_denom_pos quotient_of_div)
  from assms x b have a: "0 < a" by (simp add: zero_less_divide_iff)
  define k where "k = bitlen a - bitlen b"
  have up: "x < 2 powi (k + 1)"
  proof -
    have "of_int a < (2::rat) powi (bitlen a)" by (rule bitlen_powi [OF a])
    also have "\<dots> = 2 powi (k + 1) * 2 powi (bitlen b - 1)"
      by (simp add: k_def power_int_add [symmetric])
    also have "\<dots> \<le> 2 powi (k + 1) * of_int b"
      by (intro mult_left_mono bitlen_powi [OF b]) simp
    finally show ?thesis using b by (simp add: x pos_divide_less_eq)
  qed
  have low: "2 powi (k - 1) \<le> x"
  proof -
    have "2 powi (k - 1) * of_int b \<le> 2 powi (k - 1) * (2::rat) powi (bitlen b)"
      by (intro mult_left_mono less_imp_le bitlen_powi [OF b]) simp
    also have "\<dots> = 2 powi (bitlen a - 1)"
      by (simp add: k_def power_int_add [symmetric])
    also have "\<dots> \<le> of_int a" by (rule bitlen_powi [OF a])
    finally show ?thesis using b by (simp add: x pos_le_divide_eq)
  qed
  have il: "ilog2 x = (if 2 powi k \<le> x then k else k - 1)"
    by (simp add: ilog2_def q k_def Let_def)
  show "2 powi (ilog2 x) \<le> x" using low by (simp add: il)
  show "x < 2 powi (ilog2 x + 1)" using up by (auto simp: il not_le)
qed


lemma rhe_cases:
  "round_half_even x = \<lfloor>x\<rfloor> \<or> round_half_even x = \<lfloor>x\<rfloor> + 1"
  by (simp add: round_half_even_def Let_def)

lemma rhe_of_int [simp]: "round_half_even (of_int n) = n"
  by (simp add: round_half_even_def Let_def)

lemma rhe_ge_int: "of_int n \<le> x \<Longrightarrow> n \<le> round_half_even x"
  using rhe_cases [of x] le_floor_iff [of n x] by linarith

lemma rhe_le_int:
  assumes "x \<le> of_int n" shows "round_half_even x \<le> n"
proof (cases "x = of_int n")
  case True then show ?thesis by simp
next
  case False
  with assms have "x < of_int n" by simp
  then have "\<lfloor>x\<rfloor> < n" by (simp add: floor_less_iff)
  with rhe_cases [of x] show ?thesis by linarith
qed

lemma rhe_mono:
  assumes "x \<le> y" shows "round_half_even x \<le> round_half_even y"
proof (cases "\<lfloor>x\<rfloor> = \<lfloor>y\<rfloor>")
  case True
  with assms have "x - of_int \<lfloor>x\<rfloor> \<le> y - of_int \<lfloor>y\<rfloor>" by simp
  with True show ?thesis by (auto simp: round_half_even_def Let_def)
next
  case False
  with assms have "\<lfloor>x\<rfloor> < \<lfloor>y\<rfloor>" using floor_mono [of x y] by linarith
  moreover have "round_half_even x \<le> \<lfloor>x\<rfloor> + 1" using rhe_cases [of x] by linarith
  moreover have "\<lfloor>y\<rfloor> \<le> round_half_even y" using rhe_cases [of y] by linarith
  ultimately show ?thesis by linarith
qed

lemma powi2_less_cancel: "(2::rat) powi m < 2 powi n \<Longrightarrow> m < n"
  using power_int_increasing [of n m "2::rat"] by (cases "m < n") auto

lemma ilog2_unique:
  assumes "2 powi k \<le> x" "x < 2 powi (k + 1)"
  shows "ilog2 x = k"
proof -
  have x: "0 < x" using assms(1) by (rule less_le_trans [rotated]) simp
  note b = ilog2_bounds [OF x]
  have "(2::rat) powi (ilog2 x) < 2 powi (k + 1)" using b(1) assms(2) by simp
  then have 1: "ilog2 x < k + 1" by (rule powi2_less_cancel)
  have "(2::rat) powi k < 2 powi (ilog2 x + 1)" using b(2) assms(1) by simp
  then have 2: "k < ilog2 x + 1" by (rule powi2_less_cancel)
  from 1 2 show ?thesis by simp
qed

lemma ilog2_mono:
  assumes "0 < x" "x \<le> y" shows "ilog2 x \<le> ilog2 y"
proof -
  have y: "0 < y" using assms by simp
  have "(2::rat) powi (ilog2 x) \<le> x" by (rule ilog2_bounds [OF assms(1)])
  also note assms(2)
  also have "y < 2 powi (ilog2 y + 1)" by (rule ilog2_bounds [OF y])
  finally have "ilog2 x < ilog2 y + 1" by (rule powi2_less_cancel)
  then show ?thesis by simp
qed


lemma fl_pos:
  "0 < x \<Longrightarrow> fl x = of_int (round_half_even (x / 2 powi (ilog2 x - 52))) * 2 powi (ilog2 x - 52)"
  by (simp add: fl_def Let_def)

lemma fl_minus: "fl (- x) = - fl x"
  by (simp add: fl_def Let_def)

lemma pw52: "(2::rat) ^ 52 * 2 powi (k - 52) = 2 powi k"
  using power_int_add [of "2::rat" 52 "k - 52"] by simp

lemma pw53: "(2::rat) ^ 53 * 2 powi (k - 52) = 2 powi (k + 1)"
  using power_int_add [of "2::rat" 53 "k - 52"] by (simp add: add.commute)

lemma scaled_bounds:
  assumes "0 < x"
  shows "2 ^ 52 \<le> x / 2 powi (ilog2 x - 52)" "x / 2 powi (ilog2 x - 52) < 2 ^ 53"
proof -
  have p: "(0::rat) < 2 powi (ilog2 x - 52)" by simp
  from pw52 [of "ilog2 x"] ilog2_bounds(1) [OF assms] show "2 ^ 52 \<le> x / 2 powi (ilog2 x - 52)"
    using p by (simp add: pos_le_divide_eq)
  from pw53 [of "ilog2 x"] ilog2_bounds(2) [OF assms] show "x / 2 powi (ilog2 x - 52) < 2 ^ 53"
    using p by (simp add: pos_divide_less_eq)
qed

lemma mantissa_bounds:
  assumes "0 < x"
  shows "2 ^ 52 \<le> round_half_even (x / 2 powi (ilog2 x - 52))"
    "round_half_even (x / 2 powi (ilog2 x - 52)) \<le> 2 ^ 53"
proof -
  show "2 ^ 52 \<le> round_half_even (x / 2 powi (ilog2 x - 52))"
    using scaled_bounds(1) [OF assms] by (intro rhe_ge_int) simp
  show "round_half_even (x / 2 powi (ilog2 x - 52)) \<le> 2 ^ 53"
    using scaled_bounds(2) [OF assms] by (intro rhe_le_int) simp
qed

lemma fl_pos_bounds:
  assumes "0 < x"
  shows "2 powi (ilog2 x) \<le> fl x" "fl x \<le> 2 powi (ilog2 x + 1)"
proof -
  let ?e = "ilog2 x - 52"
  let ?m = "round_half_even (x / 2 powi ?e)"
  have lo: "(2::rat) ^ 52 \<le> of_int ?m"
    using mantissa_bounds(1) [OF assms] of_int_le_iff [of "2 ^ 52" ?m, where ?'a = rat] by simp
  have hi: "of_int ?m \<le> (2::rat) ^ 53"
    using mantissa_bounds(2) [OF assms] of_int_le_iff [of ?m "2 ^ 53", where ?'a = rat] by simp
  have "(2::rat) powi (ilog2 x) = 2 ^ 52 * 2 powi ?e"
    by (simp only: pw52)
  also have "\<dots> \<le> of_int ?m * 2 powi ?e"
    by (intro mult_right_mono lo) simp
  finally show "2 powi (ilog2 x) \<le> fl x" by (simp add: fl_pos [OF assms])
  have "of_int ?m * 2 powi ?e \<le> (2::rat) ^ 53 * 2 powi ?e"
    by (intro mult_right_mono hi) simp
  also have "\<dots> = 2 powi (ilog2 x + 1)"
    by (simp only: pw53)
  finally show "fl x \<le> 2 powi (ilog2 x + 1)" by (simp add: fl_pos [OF assms])
qed

lemma fl_pos_pos: "0 < x \<Longrightarrow> 0 < fl x"
  using fl_pos_bounds(1) [of x] by (rule_tac less_le_trans [of _ "2 powi ilog2 x"]) simp_all

lemma fl_pos_mono:
  assumes "0 < x" "x \<le> y"
  shows "fl x \<le> fl y"
proof -
  have y: "0 < y" using assms by simp
  have le: "ilog2 x \<le> ilog2 y" by (rule ilog2_mono [OF assms])
  show ?thesis
  proof (cases "ilog2 x = ilog2 y")
    case True
    have "x / 2 powi (ilog2 y - 52) \<le> y / 2 powi (ilog2 y - 52)"
      using assms(2) by (simp add: divide_right_mono)
    then have "round_half_even (x / 2 powi (ilog2 y - 52)) \<le> round_half_even (y / 2 powi (ilog2 y - 52))"
      by (rule rhe_mono)
    then have "(of_int (round_half_even (x / 2 powi (ilog2 y - 52))) :: rat)
        \<le> of_int (round_half_even (y / 2 powi (ilog2 y - 52)))"
      by (simp only: of_int_le_iff)
    then show ?thesis
      by (simp add: fl_pos [OF assms(1)] fl_pos [OF y] True mult_right_mono)
  next
    case False
    with le have "ilog2 x + 1 \<le> ilog2 y" by simp
    then have "(2::rat) powi (ilog2 x + 1) \<le> 2 powi (ilog2 y)"
      by (intro power_int_increasing) simp_all
    with fl_pos_bounds(2) [OF assms(1)] fl_pos_bounds(1) [OF y] show ?thesis by linarith
  qed
qed

lemma fl_zero [simp]: "fl 0 = 0"
  by (simp add: fl_def)

lemma fl_mono:
  assumes "x \<le> y" shows "fl x \<le> fl y"
proof -
  consider "0 < x" | "x \<le> 0" "0 \<le> y" | "y < 0" by linarith
  then show ?thesis
  proof cases
    case 1 then show ?thesis using assms by (rule fl_pos_mono)
  next
    case 2
    have "fl x \<le> 0"
      using fl_pos_pos [of "- x"] 2(1) by (cases "x = 0") (simp_all add: fl_minus)
    moreover have "0 \<le> fl y"
      using fl_pos_pos [of y] 2(2) by (cases "y = 0") simp_all
    ultimately show ?thesis by simp
  next
    case 3
    then have "fl (- y) \<le> fl (- x)" using assms by (intro fl_pos_mono) simp_all
    then show ?thesis by (simp add: fl_minus)
  qed
qed

lemma fl_idem: "fl (fl x) = fl x"
proof -
  have pos: "fl (fl x) = fl x" if x: "0 < x" for x
  proof -
    let ?e = "ilog2 x - 52"
    let ?m = "round_half_even (x / 2 powi ?e)"
    have fx: "fl x = of_int ?m * 2 powi ?e" by (rule fl_pos [OF x])
    note b = fl_pos_bounds [OF x]
    show ?thesis
    proof (cases "fl x = 2 powi (ilog2 x + 1)")
      case True
      have il: "ilog2 (fl x) = ilog2 x + 1"
        unfolding True by (rule ilog2_unique) (simp_all add: power_int_strict_increasing)
      have "(2::rat) powi (ilog2 x + 1) = 2 ^ 52 * 2 powi (ilog2 x + 1 - 52)"
        by (simp only: pw52)
      then have "fl x / 2 powi (ilog2 x + 1 - 52) = of_int (2 ^ 52)"
        unfolding True by simp
      then have "fl (fl x) = of_int (2 ^ 52) * 2 powi (ilog2 x + 1 - 52)"
        using fl_pos [OF fl_pos_pos [OF x]] il rhe_of_int [of "2 ^ 52"] by (simp del: rhe_of_int of_int_power)  
      also have "\<dots> = 2 powi (ilog2 x + 1)"
        using pw52 [of "ilog2 x + 1"] by simp
      finally show ?thesis by (simp add: True)
    next
      case False
      with b have "fl x < 2 powi (ilog2 x + 1)" by simp
      with b(1) have il: "ilog2 (fl x) = ilog2 x" by (intro ilog2_unique)
      have "fl x / 2 powi ?e = of_int ?m" by (simp add: fx)
      then have "round_half_even (fl x / 2 powi ?e) = ?m" by (simp only: rhe_of_int)
      then show ?thesis using fl_pos [OF fl_pos_pos [OF x]] by (simp add: il fx [symmetric])
    qed
  qed
  consider "0 < x" | "x = 0" | "x < 0" by linarith
  then show ?thesis
  proof cases
    case 1 then show ?thesis by (rule pos)
  next
    case 2 then show ?thesis by simp
  next
    case 3
    then have "fl (fl (- x)) = fl (- x)" by (intro pos) simp
    then show ?thesis by (simp add: fl_minus)
  qed
qed


lemma fl_nonneg: "0 \<le> x \<Longrightarrow> 0 \<le> fl x"
  using fl_mono [of 0 x] by simp

section \<open>Properties of the quality report\<close>

lemma verify_loop_counts:
  "verify_loop rt results v = Inr v' \<Longrightarrow>
     total_results v' = total_results v \<and> score v' = score v \<and>
     verified_results v' = verified_results v + length (filter (single_ok rt) results)"
proof (induction results arbitrary: v)
  case Nil
  then show ?case by simp
next
  case (Cons r rs)
  then show ?case
    by (auto simp: single_ok_def split: sum.splits if_splits)
qed

lemma rate_fields [simp]:
  "score (rate v) = score v" "total_results (rate v) = total_results v"
  "verified_results (rate v) = verified_results v"
  by (simp_all add: rate_def)

lemma percentage_nonneg: "0 \<le> fmul (fdiv (of_nat a) (of_nat b)) 100"
  unfolding fmul_def fdiv_def by (intro fl_nonneg mult_nonneg_nonneg) simp_all

text \<open>
  C7, as the code computes it. For a non-empty batch that is verified without an exception,
  the score is the integer part of the float product \<open>(verified / total) * 100\<close>: the
  quotient is truncated by \<open>int(...)\<close>, not rounded, and both float operations round their
  result first. \<open>verified\<close> counts the results that pass \<open>verify_single_result\<close> and
  \<open>total\<close> is the size of the batch. For the empty batch no division takes place: the
  report keeps its initial score of 100 and carries the confidence label \<open>low\<close> and the
  data quality \<open>no_data\<close>.
\<close>

lemma verify_results_report:
  assumes "verify_results rt results = Inr rep"
  shows "total_results rep = length results"
    and "verified_results rep = length (filter (single_ok rt) results)"
    and "results \<noteq> [] \<Longrightarrow>
           score rep = \<lfloor>fl (fl (of_nat (verified_results rep) / of_nat (total_results rep)) * 100)\<rfloor>"
    and "results = [] \<Longrightarrow>
           score rep = 100 \<and> confidence rep = ''low'' \<and> data_quality rep = ''no_data''"
proof -
  show "results = [] \<Longrightarrow>
          score rep = 100 \<and> confidence rep = ''low'' \<and> data_quality rep = ''no_data''"
    using assms by (auto simp: verify_results_def)
  have ne: "total_results rep = length results \<and>
      verified_results rep = length (filter (single_ok rt) results) \<and>
      score rep = \<lfloor>fl (fl (of_nat (verified_results rep) / of_nat (total_results rep)) * 100)\<rfloor>"
    if "results \<noteq> []"
  proof -
    from that assms obtain v where
      loop: "verify_loop rt results
               \<lparr>total_results = length results, verified_results = 0, rep_warnings = [],
                rep_errors = [], score = 100, confidence = ''high'',
                data_quality = ''excellent''\<rparr> = Inr v"
      and rep: "rep = rate (v\<lparr>score := py_int_of_float
                  (fmul (fdiv (of_nat (verified_results v)) (of_nat (total_results v))) 100)\<rparr>)"
      using verify_loop_counts
      by (fastforce simp: verify_results_def Let_def split: sum.splits if_splits)
    from verify_loop_counts [OF loop] show ?thesis
      using percentage_nonneg [of "verified_results v" "total_results v"]
      by (simp add: rep py_int_of_float_def) (simp add: fmul_def fdiv_def)
  qed
  then show "results \<noteq> [] \<Longrightarrow>
      score rep = \<lfloor>fl (fl (of_nat (verified_results rep) / of_nat (total_results rep)) * 100)\<rfloor>"
    by simp
  show "total_results rep = length results"
    using ne assms by (cases "results = []") (auto simp: verify_results_def)
  show "verified_results rep = length (filter (single_ok rt) results)"
    using ne assms by (cases "results = []") (auto simp: verify_results_def)
qed

theorem score_is_truncated_percentage:
  "verify_results rt results = Inr rep \<Longrightarrow>
     total_results rep = length results \<and>
     verified_results rep = length (filter (single_ok rt) results) \<and>
     (results \<noteq> [] \<longrightarrow>
        score rep =
          \<lfloor>fl (fl (of_nat (verified_results rep) / of_nat (total_results rep)) * 100)\<rfloor>) \<and>
     (results = [] \<longrightarrow>
        score rep = 100 \<and> confidence rep = ''low'' \<and> data_quality rep = ''no_data'')"
  using verify_results_report [of rt results rep] by blast

theorem score_is_truncated_percentage_witness:
  "verify_results example_runtime
     [[(''betrag'', PInt 5000)], [(''betrag'', PInt 20000000)]] =
     Inr \<lparr>total_results = 2, verified_results = 1, rep_warnings = [],
          rep_errors = [AmountTooHigh (PInt 20000000)], score = 50, confidence = ''low'',
          data_quality = ''questionable''\<rparr> \<and>
   (50::int) = \<lfloor>fl (fl (of_nat 1 / of_nat 2) * 100)\<rfloor>"
proof -
  let ?rep = "\<lparr>total_results = 2, verified_results = 1, rep_warnings = [],
          rep_errors = [AmountTooHigh (PInt 20000000)], score = 50, confidence = ''low'',
          data_quality = ''questionable''\<rparr>"
  have run: "verify_results example_runtime
     [[(''betrag'', PInt 5000)], [(''betrag'', PInt 20000000)]] = Inr ?rep"
    by code_simp
  have ne: "[[(''betrag'', PInt 5000)], [(''betrag'', PInt 20000000)]] \<noteq> []"
    by (rule list.distinct(2))
  from score_is_truncated_percentage [OF run]
  have "score ?rep =
      \<lfloor>fl (fl (of_nat (verified_results ?rep) / of_nat (total_results ?rep)) * 100)\<rfloor>"
    using ne by blast
  then have "(50::int) = \<lfloor>fl (fl (of_nat 1 / of_nat 2) * 100)\<rfloor>"
    by (simp only: report.simps)
  with run show ?thesis by (rule conjI)
qed

text \<open>
  C7 as stated fails: of three results two pass, the score is \<open>int(66.66...) = 66\<close>, and
  rounding \<open>2/3 * 100\<close> gives 67.
\<close>

theorem score_not_rounded_counterexample:
  "verify_results example_runtime
     [[(''betrag'', PInt 5000)], [(''betrag'', PInt 700)], [(''betrag'', PInt 20000000)]] =
     Inr \<lparr>total_results = 3, verified_results = 2, rep_warnings = [],
          rep_errors = [AmountTooHigh (PInt 20000000)], score = 66, confidence = ''low'',
          data_quality = ''questionable''\<rparr> \<and>
   round ((2::rat) / 3 * 100) = (67::int) \<and>
   round (fl (fl ((2::rat) / 3) * 100)) = (67::int)"
  by code_simp

section \<open>Properties of the query interpreter\<close>

lemma year_at_group: "year_at s \<Longrightarrow> take 2 s = ''19'' \<or> take 2 s = ''20''"
  by (induction s rule: year_at.induct) auto

lemma year_findall_groups: "set (year_findall pw s) \<subseteq> {''19'', ''20''}"
proof (induction pw s rule: year_findall.induct)
  case (1 pw)
  then show ?case by simp
next
  case (2 pw c cs)
  then show ?case using year_at_group [of "c # cs"] by (cases "\<not> pw \<and> year_at (c # cs)") auto
qed

lemma group_values: "int_of_digits ''19'' = 19" "int_of_digits ''20'' = 20"
  by (simp_all add: int_of_digits_def)

text \<open>
  Whatever the query, no 4-digit token reaches the result: each match is reported as its
  group \<open>19\<close> or \<open>20\<close>, whose value is below 1990.
\<close>

lemma direct_years_empty: "direct_years current_year query = []"
proof -
  have "\<not> (1990 \<le> int_of_digits m \<and> int_of_digits m \<le> current_year + 1)"
    if "m \<in> set (year_findall False query)" for m
    using that year_findall_groups [of False query] group_values by auto
  then show ?thesis by (auto simp: direct_years_def filter_empty_conv)
qed

text \<open>
  C5: the query \<open>ausgaben 2023\<close> holds the 4-digit token 2023, which lies in
  \<open>[1990, 2027]\<close> in the year 2026, and the extracted years are empty.
\<close>

theorem extract_years_misses_token: "extract_years example_runtime ''ausgaben 2023'' = Inr []"
proof -
  have 1: "\<not> list_ex (contains ''ausgaben 2023'')
      [''letztes jahr'', ''voriges jahr'', ''vergangenes jahr'']"
    by code_simp
  have 2: "\<not> list_ex (contains ''ausgaben 2023'') [''dieses jahr'', ''aktuelles jahr'']"
    by code_simp
  have 3: "\<not> contains ''ausgaben 2023'' ''letzte''"
    by code_simp
  have "relative_years example_runtime ''ausgaben 2023'' = Inr []"
    unfolding relative_years_def using 1 2 3 by simp
  then show ?thesis
    by (simp add: extract_years_def direct_years_empty)
qed





















text \<open>
  C8: \<open>analyze_query\<close> returns an interpretation for every query and every behaviour of
  its steps. Either the steps all return and the result is the one they build, with no
  error note, or a step raises \<open>e\<close> and the result is the degraded one: intent
  \<open>general_search\<close>, confidence 0.5, the query as the only keyword, no entities, and the
  error \<open>e\<close> attached.
\<close>

theorem analyze_query_never_raises:
  "(\<exists>result. analyze_try st query = Inr result \<and> analyze_query st query = result \<and>
      error result = None \<and> original_query result = query) \<or>
   (\<exists>e. analyze_try st query = Inl e \<and>
      analyze_query st query =
        \<lparr>original_query = query, normalized_query = None, intent = ''general_search'',
         entities = [], query_keywords = [query], query_context = None, an_confidence = 1 / 2,
         timestamp = None, error = Some e\<rparr>)"
proof (cases "analyze_try st query")
  case (Inl e)
  have "fl (1 / 2) = 1 / 2" by code_simp
  with Inl show ?thesis by (simp add: analyze_query_def)
next
  case (Inr result)
  then have "error result = None \<and> original_query result = query"
    by (auto simp: analyze_try_def split: sum.splits)
  with Inr show ?thesis by (simp add: analyze_query_def)
qed

section \<open>Properties of the fact checker\<close>

lemma fl_one: "fl 1 = 1"
  by code_simp

lemma factor_bounds:
  "0 \<le> fl (7 / 10)" "fl (7 / 10) \<le> 1" "0 \<le> fl (6 / 10)" "fl (6 / 10) \<le> 1"
  "0 \<le> fl (8 / 10)" "fl (8 / 10) \<le> 1" "0 \<le> fl (3 / 10)" "fl (3 / 10) \<le> 1"
  "0 \<le> fl (9 / 10)" "fl (9 / 10) \<le> 1"
  using fl_mono [of "7 / 10" 1] fl_mono [of "6 / 10" 1] fl_mono [of "8 / 10" 1]
    fl_mono [of "3 / 10" 1] fl_mono [of "9 / 10" 1]
  by (simp_all add: fl_nonneg fl_one)

lemma threshold_gap: "fl (6 / 10) < fl (7 / 10)" "0 < fl (7 / 10)"
  by code_simp+





text \<open>A product with a factor of at most 1 stays below a bound that is itself a float.\<close>

lemma fmul_bound:
  assumes "c \<le> u" "0 \<le> u" "fl u = u" "k \<le> 1" "0 \<le> c \<or> 0 \<le> k"
  shows "fmul c k \<le> u"
proof -
  have "c * k \<le> u"
  proof (cases "0 \<le> c")
    case True
    then have "c * k \<le> c * 1" using assms(4) by (intro mult_left_mono)
    with assms(1) show ?thesis by simp
  next
    case False
    with assms(5) have "c * k \<le> 0" by (simp add: mult_le_0_iff)
    with assms(2) show ?thesis by simp
  qed
  then have "fl (c * k) \<le> fl u" by (rule fl_mono)
  then show ?thesis by (simp add: fmul_def assms(3))
qed

lemma fmul_nonneg: "0 \<le> c \<Longrightarrow> 0 \<le> k \<Longrightarrow> 0 \<le> fmul c k"
  by (simp add: fmul_def fl_nonneg)

lemma penalty_bound:
  assumes "c \<le> u" "0 \<le> u" "fl u = u" "0 \<le> f" "f \<le> 1"
  shows "penalty v f c \<le> u"
  using assms fmul_bound [of c u f] by (simp add: penalty_def)

lemma penalty_nonneg: "0 \<le> c \<Longrightarrow> 0 \<le> f \<Longrightarrow> 0 \<le> penalty v f c"
  by (simp add: penalty_def fmul_nonneg)

lemma run_checks_confidence:
  assumes "check_value_ranges rt result = Inr rc" "check_plausibility rt result = Inr pc"
  shows "\<exists>found. run_checks rt db result query =
     Inr (penalty (check_query_relevance rt result query) (fl (9 / 10))
            (if fst (check_consistency_with_known_facts rt db result) < 1
             then fmul
                    (penalty (fst (check_suspicious_patterns rt result)) (fl (3 / 10))
                       (penalty (fst pc) (fl (8 / 10))
                          (penalty (fst rc) (fl (6 / 10))
                             (penalty (fst (check_data_structure rt result)) (fl (7 / 10)) 1))))
                    (fst (check_consistency_with_known_facts rt db result))
             else penalty (fst (check_suspicious_patterns rt result)) (fl (3 / 10))
                    (penalty (fst pc) (fl (8 / 10))
                       (penalty (fst rc) (fl (6 / 10))
                          (penalty (fst (check_data_structure rt result)) (fl (7 / 10)) 1)))),
          found)"
  unfolding run_checks_def assms
  by (simp only: Let_def sum.case) (rule exI, rule refl)





lemma range_issue_over:
  assumes "map_of result ''betrag'' = Some v" "num_of v = Some x" "snd valid_ranges_betrag < x"
  shows "range_issue ''betrag'' valid_ranges_betrag result = Inr [IOutOfRange ''betrag'' v]"
  using assms by (cases v) (auto simp: range_issue_def)

lemma range_check_fails:
  assumes "map_of result ''betrag'' = Some v" "num_of v = Some x" "snd valid_ranges_betrag < x"
    and "check_value_ranges rt result = Inr rc"
  shows "\<not> fst rc"
  using assms(4) range_issue_over [OF assms(1-3)]
  by (auto simp: check_value_ranges_def Let_def split: sum.splits)

lemma run_checks_after_range_failure:
  assumes "check_value_ranges rt result = Inr rc" "\<not> fst rc"
    and "run_checks rt db result query = Inr (c, found)"
  shows "c \<le> fl (6 / 10)"
proof -
  define k7 u k8 k3 k9 where k: "k7 = fl (7 / 10)" "u = fl (6 / 10)" "k8 = fl (8 / 10)"
    "k3 = fl (3 / 10)" "k9 = fl (9 / 10)"
  have b: "0 \<le> k7" "k7 \<le> 1" "0 \<le> u" "u \<le> 1" "0 \<le> k8" "k8 \<le> 1" "0 \<le> k3" "k3 \<le> 1"
    "0 \<le> k9" "k9 \<le> 1"
    unfolding k by (rule factor_bounds)+
  have u: "fl u = u" unfolding k by (rule fl_idem)
  define c1 where "c1 = penalty (fst (check_data_structure rt result)) k7 1"
  have c1: "0 \<le> c1" "c1 \<le> 1"
    unfolding c1_def using b penalty_bound [of 1 1 k7] penalty_nonneg [of 1 k7]
    by (simp_all add: fl_one)
  define c2 where "c2 = penalty (fst rc) u c1"
  have c2eq: "c2 = fmul c1 u"
    unfolding c2_def using assms(2) by (simp add: penalty_def)
  have c2: "c2 \<le> u" "0 \<le> c2"
    unfolding c2eq using fmul_bound [of u u c1] fmul_nonneg [of c1 u] c1 b(3) u
    by (simp_all add: fmul_def mult.commute)
  obtain pc where pc: "check_plausibility rt result = Inr pc"
    using assms(1,3) by (auto simp: run_checks_def Let_def split: sum.splits)
  define c3 where "c3 = penalty (fst pc) k8 c2"
  have c3: "c3 \<le> u" "0 \<le> c3"
    unfolding c3_def using c2 u b by (simp_all add: penalty_bound penalty_nonneg)
  define c4 where "c4 = penalty (fst (check_suspicious_patterns rt result)) k3 c3"
  have c4: "c4 \<le> u" "0 \<le> c4"
    unfolding c4_def using c3 u b by (simp_all add: penalty_bound penalty_nonneg)
  define kc where "kc = fst (check_consistency_with_known_facts rt db result)"
  define c5 where "c5 = (if kc < 1 then fmul c4 kc else c4)"
  have c5: "c5 \<le> u"
    unfolding c5_def using c4 u b(3) fmul_bound [of c4 u kc] by simp
  have "penalty (check_query_relevance rt result query) k9 c5 \<le> u"
    using c5 u b by (simp add: penalty_bound)
  moreover have "\<exists>found'. run_checks rt db result query =
      Inr (penalty (check_query_relevance rt result query) k9 c5, found')"
    using run_checks_confidence [OF assms(1) pc, of db query]
    unfolding c5_def kc_def c4_def c3_def c2_def c1_def k .
  ultimately show ?thesis using assms(3) unfolding k by auto
qed

text \<open>
  C4: a result whose \<open>betrag\<close> is a number above the ceiling of \<open>valid_ranges\<close> is never
  verified, whatever its other fields, the query and the database hold.
\<close>

theorem over_ceiling_not_verified:
  assumes "map_of result ''betrag'' = Some v" "num_of v = Some x" "snd valid_ranges_betrag < x"
  shows "\<not> is_verified (fst (verify_single_result_backend rt db result query))"
proof (cases "run_checks rt db result query")
  case (Inl e)
  then show ?thesis by (simp add: verify_single_result_backend_def)
next
  case (Inr p)
  obtain c found where p: "p = (c, found)" by (cases p)
  from Inr obtain rc where rc: "check_value_ranges rt result = Inr rc"
    by (auto simp: run_checks_def Let_def split: sum.splits)
  have "c \<le> fl (6 / 10)"
    using run_checks_after_range_failure [OF rc range_check_fails [OF assms rc]] Inr p by simp
  with threshold_gap(1) have "\<not> fl (7 / 10) \<le> c" by simp
  then show ?thesis using Inr p by (simp add: verify_single_result_backend_def Let_def)
qed





theorem over_ceiling_not_verified_witness:
  "map_of [(''betrag'', PInt 20000000), (''beschreibung'', PStr ''rathaus'')] ''betrag'' =
     Some (PInt 20000000) \<and>
   num_of (PInt 20000000) = Some 20000000 \<and>
   snd valid_ranges_betrag < 20000000 \<and>
   \<not> is_verified (fst (verify_single_result_backend example_runtime (Some empty_store)
     [(''betrag'', PInt 20000000), (''beschreibung'', PStr ''rathaus'')] ''rathaus''))"
proof -
  have h: "map_of [(''betrag'', PInt 20000000), (''beschreibung'', PStr ''rathaus'')] ''betrag'' =
     Some (PInt 20000000)" "num_of (PInt 20000000) = Some 20000000"
    "snd valid_ranges_betrag < 20000000"
    by (simp_all add: valid_ranges_betrag_def)
  from over_ceiling_not_verified [OF h] h show ?thesis by blast
qed


end
